theory Spec2Isabelle
  imports Complex_Main "HOL-Library.Sublist"
begin

section \<open>Text\<close>

text \<open>
  Python \<^verbatim>\<open>str\<close> values are modelled as \<^typ>\<open>string\<close>. The membership test
  \<^verbatim>\<open>a in b\<close> on two strings is \<^const>\<open>sublist\<close> (a contiguous occurrence) and
  \<^verbatim>\<open>b.startswith(a)\<close> is \<^const>\<open>prefix\<close>. \<^verbatim>\<open>str.lower()\<close> is modelled on
  the letters A to Z; every other character is left as it is, so the model is
  exact on ASCII text.
\<close>

definition upper_letters :: string where
  "upper_letters = ''ABCDEFGHIJKLMNOPQRSTUVWXYZ''"

definition lower_letters :: string where
  "lower_letters = ''abcdefghijklmnopqrstuvwxyz''"

definition lower_char :: "char \<Rightarrow> char" where
  "lower_char c = (case map_of (zip upper_letters lower_letters) c of Some d \<Rightarrow> d | None \<Rightarrow> c)"

definition lower :: "string \<Rightarrow> string" where
  "lower s = map lower_char s"

text \<open>\<^verbatim>\<open>s.replace(c, new)\<close> for a pattern \<open>c\<close> of one character.\<close>

definition replace :: "char \<Rightarrow> string \<Rightarrow> string \<Rightarrow> string" where
  "replace c new s = concat (map (\<lambda>x. if x = c then new else [x]) s)"

text \<open>\<^verbatim>\<open>any(keyword in text for keyword in keywords)\<close>\<close>

definition any_in :: "string list \<Rightarrow> string \<Rightarrow> bool" where
  "any_in keywords text = list_ex (\<lambda>keyword. sublist keyword text) keywords"

section \<open>Response normalizer (qwen\_model.py)\<close>

definition valid_tasks :: "string list" where
  "valid_tasks = [''OCR'', ''Image Captioning'', ''Visual QA'', ''Image Classification'',
     ''Object Detection'', ''Style Transfer'', ''Medical Diagnosis'', ''Other'']"

text \<open>The \<^verbatim>\<open>for task in valid_tasks\<close> loop with its early return.\<close>

fun first_task_in :: "string list \<Rightarrow> string \<Rightarrow> string" where
  "first_task_in [] response = ''Other''"
| "first_task_in (task # tasks) response =
     (if sublist (lower task) response then task else first_task_in tasks response)"

definition parse_task_from_response :: "string \<Rightarrow> string" where
  "parse_task_from_response response =
     (let response = replace CHR ''!'' '''' (replace CHR ''?'' '''' (replace CHR '','' ''''
                       (replace CHR ''.'' '''' (lower response))))
      in first_task_in valid_tasks response)"

section \<open>Local keyword classifier (ai\_classifier.py)\<close>

definition medical_keywords :: "string list" where
  "medical_keywords = [''medical'', ''diagnosis'', ''health'', ''doctor'', ''patient'',
     ''disease'', ''condition'', ''symptoms'', ''diagnose'']"

definition ocr_keywords :: "string list" where
  "ocr_keywords = [''text'', ''read'', ''extract'', ''ocr'', ''words'', ''letters'',
     ''characters'', ''document'']"

definition classification_keywords :: "string list" where
  "classification_keywords = [''classify'', ''category'', ''type'', ''kind'', ''sort'',
     ''group'', ''label'']"

definition object_keywords :: "string list" where
  "object_keywords = [''objects'', ''items'', ''things'', ''find'', ''locate'',
     ''bounding box'', ''coordinates'', ''detect'']"

definition style_keywords :: "string list" where
  "style_keywords = [''style'', ''art'', ''transform'', ''convert'', ''change style'',
     ''make it look like'']"

definition caption_keywords :: "string list" where
  "caption_keywords = [''describe'', ''caption'', ''what is this'', ''what do you see'',
     ''scene'', ''picture'', ''image'']"

definition vqa_keywords :: "string list" where
  "vqa_keywords = [''what color'', ''how many'', ''count'', ''identify'', ''recognize'']"

definition mock_classify_task :: "string \<Rightarrow> string" where
  "mock_classify_task question =
     (let question_lower = lower question in
      if any_in medical_keywords question_lower then ''Medical Diagnosis''
      else if any_in ocr_keywords question_lower then ''OCR''
      else if any_in classification_keywords question_lower then ''Image Classification''
      else if any_in object_keywords question_lower then ''Object Detection''
      else if any_in style_keywords question_lower then ''Style Transfer''
      else if any_in caption_keywords question_lower then ''Image Captioning''
      else if any_in vqa_keywords question_lower then ''Visual QA''
      else if prefix ''what'' question_lower \<or> prefix ''where'' question_lower
              \<or> prefix ''how'' question_lower then ''Visual QA''
      else ''Other'')"

section \<open>Values, exceptions and the environment\<close>

text \<open>
  A value taken from a JSON document or returned by a handler: a string, an
  integer, a float, null, a nested JSON object (its content is not needed), or
  the tensor that \<^verbatim>\<open>torch.argmax\<close> returns. Only strings have the
  \<^verbatim>\<open>startswith\<close> and \<^verbatim>\<open>lower\<close> methods.
\<close>

datatype py_value = PyStr string | PyNum int | PyFloat real | PyNone | PyObject | PyTensor int

text \<open>
  Exceptions are values. \<open>ConnectionError\<close>, \<open>Timeout\<close> and \<open>RequestException\<close> are the
  classes of \<^verbatim>\<open>requests.exceptions\<close>; every constructor is a subclass of Python's
  \<^verbatim>\<open>Exception\<close>, so \<^verbatim>\<open>except Exception\<close> and a bare \<^verbatim>\<open>except\<close> catch them all.
\<close>

datatype exc =
    ConnectionError string
  | Timeout string
  | RequestException string
  | ValueError string
  | AttributeError string
  | IndexError string
  | OtherException string
  | HTTPException int string

fun is_request_exception :: "exc \<Rightarrow> bool" where
  "is_request_exception (ConnectionError m) = True"
| "is_request_exception (Timeout m) = True"
| "is_request_exception (RequestException m) = True"
| "is_request_exception e = False"

fun str_exc :: "exc \<Rightarrow> string" where
  "str_exc (ConnectionError m) = m"
| "str_exc (Timeout m) = m"
| "str_exc (RequestException m) = m"
| "str_exc (ValueError m) = m"
| "str_exc (AttributeError m) = m"
| "str_exc (IndexError m) = m"
| "str_exc (OtherException m) = m"
| "str_exc (HTTPException c m) = m"

text \<open>\<^verbatim>\<open>try: body except Exception as e: handler(e)\<close>\<close>

definition try_except :: "exc + 'a \<Rightarrow> (exc \<Rightarrow> exc + 'a) \<Rightarrow> exc + 'a" where
  "try_except body handler = (case body of Inl e \<Rightarrow> handler e | Inr v \<Rightarrow> Inr v)"

text \<open>Decimal printing of a status code inside an f-string.\<close>

definition digit_char :: "nat \<Rightarrow> char" where
  "digit_char d = ''0123456789'' ! d"

fun str_nat :: "nat \<Rightarrow> string" where
  "str_nat n = (if n < 10 then [digit_char n] else str_nat (n div 10) @ [digit_char (n mod 10)])"

definition str_int :: "int \<Rightarrow> string" where
  "str_int i = (if i < 0 then CHR ''-'' # str_nat (nat (- i)) else str_nat (nat i))"

text \<open>
  \<^verbatim>\<open>round(x, n)\<close> rounds to \<open>n\<close> decimals, a tie going to the even neighbour. Clock
  readings and latencies are real numbers here; the binary representation of
  Python's floats is not modelled.
\<close>

definition py_round :: "real \<Rightarrow> nat \<Rightarrow> real" where
  "py_round x n =
     (let s = x * 10 ^ n; f = \<lfloor>s\<rfloor>; d = s - of_int f
      in of_int (if d < 1/2 then f else if 1/2 < d then f + 1
                 else if even f then f else f + 1) / 10 ^ n)"

text \<open>A parsed JSON document: an object (a dict), or any other JSON value.\<close>

datatype json = Object "string \<rightharpoonup> py_value" | NotObject

text \<open>\<^verbatim>\<open>d.get(key, dflt)\<close>\<close>

definition dict_get :: "('k \<rightharpoonup> 'v) \<Rightarrow> 'k \<Rightarrow> 'v \<Rightarrow> 'v" where
  "dict_get d key dflt = (case d key of Some v \<Rightarrow> v | None \<Rightarrow> dflt)"

text \<open>
  An HTTP response: its status code, its text, and what \<^verbatim>\<open>response.json()\<close> does
  (it raises on a body that is not JSON).
\<close>

record response =
  status_code :: int
  resp_text :: string
  resp_json :: "exc + json"

text \<open>
  Everything outside the process is an input of the model: the environment
  variables, the interpreter's \<^verbatim>\<open>int()\<close> and \<^verbatim>\<open>float()\<close> on strings, the outcome of
  each network call (an exception or a response), the local language model, the
  index that \<^verbatim>\<open>random.choice\<close> draws, the clock, the identifier generator, and the
  steps of the request handler that touch the uploaded file. Console output is
  not modelled.

  \<^item> \<open>session_head\<close> answers the probes of the scan in \<^verbatim>\<open>call_cerebras_qwen\<close>,
    \<open>session_head_generate\<close> those of the second scan, inside \<^verbatim>\<open>generate\<close>;
  \<^item> \<open>session_post url prompt\<close> is the completion request of the Cerebras client,
    \<open>requests_post url prompt\<close> the one of \<^verbatim>\<open>call_qwen_model_api\<close>;
  \<^item> \<open>client_post url image_path question\<close> is the request that \<^verbatim>\<open>handle_task\<close>
    sends to a task handler;
  \<^item> \<open>save_upload\<close> is the outcome of storing the upload (the path written), and
    \<open>image_caption\<close> that of opening the image and captioning it;
  \<^item> \<open>clock_start\<close> and \<open>clock_end\<close> are the first and the last reading of
    \<^verbatim>\<open>time.time()\<close> in \<^verbatim>\<open>analyze_image\<close>.
\<close>

record env =
  environ :: "string \<rightharpoonup> string"
  py_int :: "string \<Rightarrow> exc + int"
  py_float :: "string \<Rightarrow> exc + real"
  session_head :: "string \<Rightarrow> exc + int"
  session_head_generate :: "string \<Rightarrow> exc + int"
  session_post :: "string \<Rightarrow> string \<Rightarrow> exc + response"
  requests_post :: "string \<Rightarrow> string \<Rightarrow> exc + response"
  qwen_local :: "string \<Rightarrow> exc + string"
  randbelow :: nat
  client_post :: "string \<Rightarrow> string \<Rightarrow> string \<Rightarrow> exc + response"
  save_upload :: "exc + string"
  image_caption :: "exc + string"
  clock_start :: real
  clock_end :: real
  uuid4 :: string
  now_isoformat :: string

text \<open>\<^verbatim>\<open>os.getenv(name, dflt)\<close>\<close>

definition getenv :: "env \<Rightarrow> string \<Rightarrow> string \<Rightarrow> string" where
  "getenv e name dflt = dict_get (environ e) name dflt"

text \<open>\<^verbatim>\<open>image_context or dflt\<close>: \<^verbatim>\<open>None\<close> and the empty string are falsy.\<close>

definition or_default :: "string option \<Rightarrow> string \<Rightarrow> string" where
  "or_default v dflt = (case v of None \<Rightarrow> dflt | Some s \<Rightarrow> if s = [] then dflt else s)"

text \<open>\<^verbatim>\<open>not working_url\<close>\<close>

definition falsy :: "string option \<Rightarrow> bool" where
  "falsy v = (case v of None \<Rightarrow> True | Some s \<Rightarrow> s = [])"

text \<open>\<^verbatim>\<open>a or b\<close> on strings.\<close>

definition str_or :: "string \<Rightarrow> string \<Rightarrow> string" where
  "str_or a b = (if a = [] then b else a)"

section \<open>Classification prompt\<close>

definition newline :: string where
  "newline = [CHR 0x0A]"

text \<open>
  \<^verbatim>\<open>prompt_template.format(question=..., image_context=...)\<close> of ai\_classifier.py.
  The f-string of \<^verbatim>\<open>classify_task_with_cerebras_qwen\<close> has the same text.
\<close>

definition prompt_template :: "string \<Rightarrow> string \<Rightarrow> string" where
  "prompt_template question image_context =
     newline @ ''Classify the AI task based on the question and image description.'' @ newline
     @ newline @ ''Question: '' @ question
     @ newline @ ''Image: '' @ image_context @ newline
     @ newline @ ''Respond with exactly one of these options:''
     @ newline @ ''- OCR''
     @ newline @ ''- Image Captioning''
     @ newline @ ''- Visual QA''
     @ newline @ ''- Image Classification''
     @ newline @ ''- Object Detection''
     @ newline @ ''- Style Transfer''
     @ newline @ ''- Medical Diagnosis''
     @ newline @ ''- Other'' @ newline
     @ newline @ ''Task:''"

section \<open>Cerebras client (cerebras\_qwen.py)\<close>

record CerebrasConfig =
  api_url :: string
  api_key :: "string option"
  model_name :: string
  max_tokens :: int
  temperature :: real
  timeout :: int
  fallback_urls :: "string list"

definition get_cerebras_config :: "env \<Rightarrow> exc + CerebrasConfig" where
  "get_cerebras_config e =
     (let primary_url = getenv e ''CEREBRAS_API_URL'' ''https://api.cerebras.com/v1/chat/completions'';
          urls = [''https://api.cerebras.com/v1/completions'',
                  ''https://api.cerebras.com/chat/completions'',
                  ''https://api.cerebras.com/completions'',
                  ''https://cerebras-api.com/v1/chat/completions'',
                  ''https://cerebras-api.com/v1/completions'']
      in case py_int e (getenv e ''CEREBRAS_MAX_TOKENS'' ''100'') of
           Inl err \<Rightarrow> Inl err
         | Inr tokens \<Rightarrow>
      (case py_float e (getenv e ''CEREBRAS_TEMPERATURE'' ''0.7'') of
           Inl err \<Rightarrow> Inl err
         | Inr temp \<Rightarrow>
      (case py_int e (getenv e ''CEREBRAS_TIMEOUT'' ''30'') of
           Inl err \<Rightarrow> Inl err
         | Inr tmo \<Rightarrow>
             Inr \<lparr>api_url = primary_url,
                  api_key = environ e ''CEREBRAS_API_KEY'',
                  model_name = getenv e ''CEREBRAS_MODEL_NAME'' ''qwen-7b'',
                  max_tokens = tokens, temperature = temp, timeout = tmo,
                  fallback_urls = urls\<rparr>)))"

text \<open>
  \<^verbatim>\<open>_test_endpoint_connectivity\<close>: the argument \<open>head\<close> is \<^verbatim>\<open>self.session.head\<close> with
  its five second timeout, giving the status code or the exception raised.
\<close>

definition test_endpoint_connectivity :: "(string \<Rightarrow> exc + int) \<Rightarrow> string \<Rightarrow> bool" where
  "test_endpoint_connectivity head url =
     (case head url of Inl err \<Rightarrow> False | Inr status \<Rightarrow> status < 500)"

text \<open>
  The loop of \<^verbatim>\<open>_find_working_endpoint\<close>. Beside the result it returns the URLs on
  which \<open>head\<close> was called, in order.
\<close>

fun try_urls :: "(string \<Rightarrow> exc + int) \<Rightarrow> string list \<Rightarrow> string option \<times> string list" where
  "try_urls head [] = (None, [])"
| "try_urls head (url # urls) =
     (if test_endpoint_connectivity head url then (Some url, [url])
      else (case try_urls head urls of (found, probed) \<Rightarrow> (found, url # probed)))"

definition find_working_endpoint ::
    "CerebrasConfig \<Rightarrow> (string \<Rightarrow> exc + int) \<Rightarrow> string option \<times> string list" where
  "find_working_endpoint config head =
     (let urls_to_try = [api_url config] @ fallback_urls config in try_urls head urls_to_try)"

text \<open>
  The dict returned by \<^verbatim>\<open>generate\<close>: with \<^verbatim>\<open>success\<close> true it has the key
  \<^verbatim>\<open>response\<close>, otherwise the key \<^verbatim>\<open>error\<close>; both carry \<^verbatim>\<open>model\<close>. Its
  \<^verbatim>\<open>latency\<close> entry is not read by any caller and is left out.
\<close>

datatype generate_result = Success py_value string | Failure string string

text \<open>The three \<^verbatim>\<open>except\<close> clauses of \<^verbatim>\<open>generate\<close>; any other exception propagates.\<close>

fun generate_except :: "string \<Rightarrow> exc \<Rightarrow> exc + generate_result" where
  "generate_except model (ConnectionError m) =
     Inr (Failure (''Connection error: '' @ m
            @ ''. Please check your network connection and API endpoint.'') model)"
| "generate_except model (Timeout m) =
     Inr (Failure (''Request timeout: '' @ m @ ''. Please try again or increase timeout.'') model)"
| "generate_except model (RequestException m) =
     Inr (Failure (''Request failed: '' @ m) model)"
| "generate_except model e = Inl e"

text \<open>\<^verbatim>\<open>generate\<close> as \<^verbatim>\<open>call_cerebras_qwen\<close> calls it, without keyword arguments.\<close>

definition generate ::
    "CerebrasConfig \<Rightarrow> (string \<Rightarrow> exc + int) \<Rightarrow> (string \<Rightarrow> string \<Rightarrow> exc + response)
      \<Rightarrow> string \<Rightarrow> exc + generate_result" where
  "generate config head post prompt =
     (case fst (find_working_endpoint config head) of
        None \<Rightarrow>
          Inr (Failure (''No working Cerebras API endpoint found. ''
                 @ ''Please check your network connection and API configuration.'')
               (model_name config))
      | Some working_url \<Rightarrow>
          if falsy (Some working_url) then
            Inr (Failure (''No working Cerebras API endpoint found. ''
                   @ ''Please check your network connection and API configuration.'')
                 (model_name config))
          else
            try_except
              (case post working_url prompt of
                 Inl err \<Rightarrow> Inl err
               | Inr response \<Rightarrow>
                   if status_code response = 200 then
                     (case resp_json response of
                        Inl err \<Rightarrow> Inl err
                      | Inr NotObject \<Rightarrow> Inl (AttributeError ''object has no attribute get'')
                      | Inr (Object result) \<Rightarrow>
                          Inr (Success (dict_get result ''text''
                                          (dict_get result ''response'' (PyStr [])))
                                 (model_name config)))
                   else
                     Inr (Failure (''API call error with status ''
                            @ str_int (status_code response) @ '': '' @ resp_text response)
                          (model_name config)))
              (generate_except (model_name config)))"

text \<open>\<^verbatim>\<open>_fallback_response\<close>; \<^verbatim>\<open>error_msg\<close> is only printed.\<close>

definition fallback_response :: "string \<Rightarrow> string" where
  "fallback_response prompt =
     (let prompt_lower = lower prompt in
      if sublist ''classify'' prompt_lower \<or> sublist ''task'' prompt_lower then
        (if any_in [''text'', ''extract'', ''read'', ''ocr''] prompt_lower then ''OCR''
         else if any_in [''describe'', ''caption'', ''what is this''] prompt_lower
           then ''Image Captioning''
         else if any_in [''what color'', ''how many'', ''count'', ''visual qa'', ''vqa''] prompt_lower
           then ''Visual QA''
         else if any_in [''classify'', ''category'', ''type''] prompt_lower
           then ''Image Classification''
         else if any_in [''detect'', ''objects'', ''find''] prompt_lower then ''Object Detection''
         else if any_in [''style'', ''art'', ''transfer''] prompt_lower then ''Style Transfer''
         else if any_in [''medical'', ''diagnosis'', ''health''] prompt_lower
           then ''Medical Diagnosis''
         else ''Other'')
      else ''Fallback response: I'm currently using a simplified response system. ''
             @ ''Your prompt was: '' @ [CHR 0x27] @ take 100 prompt @ ''...'' @ [CHR 0x27])"

definition call_cerebras_qwen :: "env \<Rightarrow> string \<Rightarrow> exc + py_value" where
  "call_cerebras_qwen e prompt =
     (case get_cerebras_config e of
        Inl err \<Rightarrow> Inl err
      | Inr config \<Rightarrow>
          (let working_url = fst (find_working_endpoint config (session_head e)) in
           if falsy working_url then Inr (PyStr (fallback_response prompt))
           else
             (case generate config (session_head_generate e) (session_post e) prompt of
                Inl err \<Rightarrow> Inl err
              | Inr (Success response model) \<Rightarrow> Inr response
              | Inr (Failure error model) \<Rightarrow> Inr (PyStr (fallback_response prompt)))))"

text \<open>
  \<^verbatim>\<open>classify_task_with_cerebras_qwen\<close>. The module's own
  \<^verbatim>\<open>parse_task_from_response\<close> is the same function as the one of qwen\_model.py.
\<close>

definition classify_task_with_cerebras_qwen :: "env \<Rightarrow> string \<Rightarrow> string option \<Rightarrow> exc + string" where
  "classify_task_with_cerebras_qwen e question image_context =
     (let prompt = prompt_template question (or_default image_context ''No image context provided'')
      in case call_cerebras_qwen e prompt of
           Inl err \<Rightarrow> Inl err
         | Inr (PyStr response) \<Rightarrow>
             if prefix ''Fallback response:'' response then Inr response
             else Inr (str_or (parse_task_from_response response) ''Other'')
         | Inr other \<Rightarrow> Inl (AttributeError ''object has no attribute lower''))"

section \<open>Qwen tiers (qwen\_model.py)\<close>

definition call_qwen_model_api :: "env \<Rightarrow> string \<Rightarrow> exc + py_value" where
  "call_qwen_model_api e prompt =
     (let url = getenv e ''QWEN_API_URL'' ''http://localhost:8000/qwen/predict'' in
      case py_int e (getenv e ''QWEN_MAX_TOKENS'' ''100'') of
        Inl err \<Rightarrow> Inl err
      | Inr tokens \<Rightarrow>
      (case py_float e (getenv e ''QWEN_TEMPERATURE'' ''0.7'') of
        Inl err \<Rightarrow> Inl err
      | Inr temp \<Rightarrow>
          try_except
            (case py_int e (getenv e ''QWEN_API_TIMEOUT'' ''30'') of
               Inl err \<Rightarrow> Inl err
             | Inr tmo \<Rightarrow>
            (case requests_post e url prompt of
               Inl err \<Rightarrow> Inl err
             | Inr response \<Rightarrow>
                 if status_code response = 200 then
                   (case resp_json response of
                      Inl err \<Rightarrow> Inl err
                    | Inr NotObject \<Rightarrow> Inl (AttributeError ''object has no attribute get'')
                    | Inr (Object result) \<Rightarrow>
                        Inr (dict_get result ''response''
                               (dict_get result ''text'' (PyStr ''No response text''))))
                 else
                   Inr (PyStr (''Error: API call failed with status ''
                                 @ str_int (status_code response)))))
            (\<lambda>err. if is_request_exception err
                    then Inr (PyStr (''Error: Failed to call Qwen API - '' @ str_exc err))
                    else Inl err)))"

text \<open>
  \<^verbatim>\<open>call_qwen_model_local\<close> loads a model with the transformers library and runs
  it; loading raises when the model is not installed.
\<close>

definition call_qwen_model_local :: "env \<Rightarrow> string \<Rightarrow> exc + string" where
  "call_qwen_model_local e prompt = qwen_local e prompt"

section \<open>Classifier cascade (ai\_classifier.py)\<close>

text \<open>
  The inner \<^verbatim>\<open>try\<close> block of \<^verbatim>\<open>classify_task_with_qwen\<close>: \<open>Some\<close> is the value of its
  \<^verbatim>\<open>return\<close>, \<open>None\<close> means that control leaves the block without returning.
\<close>

definition qwen_api_attempt :: "env \<Rightarrow> string \<Rightarrow> exc + string option" where
  "qwen_api_attempt e prompt =
     (case call_qwen_model_api e prompt of
        Inl err \<Rightarrow> Inl err
      | Inr (PyStr response) \<Rightarrow>
          if \<not> prefix ''Error:'' response then Inr (Some (parse_task_from_response response))
          else Inr None
      | Inr other \<Rightarrow> Inl (AttributeError ''object has no attribute startswith''))"

definition classify_task_with_qwen :: "env \<Rightarrow> string \<Rightarrow> string option \<Rightarrow> exc + string" where
  "classify_task_with_qwen e question image_context =
     (let use_cerebras = (lower (getenv e ''USE_CEREBRAS_QWEN'' ''false'') = ''true'');
          cerebras =
            (if use_cerebras then
               try_except
                 (case classify_task_with_cerebras_qwen e question image_context of
                    Inl err \<Rightarrow> Inl err
                  | Inr result \<Rightarrow> Inr (Some result))
                 (\<lambda>err. Inr None)
             else Inr None)
      in case cerebras of
           Inl err \<Rightarrow> Inl err
         | Inr (Some result) \<Rightarrow> Inr result
         | Inr None \<Rightarrow>
             (let prompt = prompt_template question
                             (or_default image_context ''No image context provided'')
              in try_except
                   (case try_except (qwen_api_attempt e prompt) (\<lambda>api_error. Inr None) of
                      Inl err \<Rightarrow> Inl err
                    | Inr (Some task) \<Rightarrow> Inr task
                    | Inr None \<Rightarrow>
                        (case call_qwen_model_local e prompt of
                           Inl err \<Rightarrow> Inl err
                         | Inr response \<Rightarrow> Inr (parse_task_from_response response)))
                   (\<lambda>err. Inr ''Other'')))"

section \<open>Task handlers (tasks.py)\<close>

text \<open>The dict every handler returns.\<close>

record task_response =
  result :: py_value
  latency :: real
  model_name_of :: string


text \<open>
  \<^verbatim>\<open>medical_task\<close>: \<open>load\<close> is the outcome of loading the model and opening and
  preprocessing the image, \<open>infer\<close> that of running the model (the index that
  \<^verbatim>\<open>torch.argmax\<close> returns).
\<close>

definition medical_task ::
    "string \<Rightarrow> string \<Rightarrow> exc + unit \<Rightarrow> exc + int \<Rightarrow> real \<Rightarrow> real \<Rightarrow> task_response" where
  "medical_task image_path question load infer start_time end_time =
     (case load of
        Inl e \<Rightarrow>
          \<lparr>result = PyStr ''Unable to perform medical analysis'',
           latency = py_round (end_time - start_time) 4, model_name_of = ''ResNet-50''\<rparr>
      | Inr u \<Rightarrow>
          (let diagnosis = (case infer of
                              Inl e \<Rightarrow> PyStr ''Unable to generate medical diagnosis''
                            | Inr k \<Rightarrow> PyTensor k)
           in \<lparr>result = diagnosis, latency = py_round (end_time - start_time) 4,
               model_name_of = ''ResNet-50''\<rparr>))"

text \<open>
  The JSON object that the web framework sends for the dict of a handler. Its
  encoder passes strings, numbers and null through; a tensor is not a JSON
  value and is sent as an empty object, so the client never sees the index.
\<close>

definition json_encode :: "py_value \<Rightarrow> py_value" where
  "json_encode v = (case v of PyTensor k \<Rightarrow> PyObject | other \<Rightarrow> other)"

definition json_of_task_response :: "task_response \<Rightarrow> json" where
  "json_of_task_response r =
     Object [''result'' \<mapsto> json_encode (result r), ''latency'' \<mapsto> PyFloat (latency r),
             ''model_name'' \<mapsto> PyStr (model_name_of r)]"


section \<open>Dispatcher (analyze.py)\<close>

definition task_mapping :: "string \<rightharpoonup> string" where
  "task_mapping = map_of
     [(''OCR'', ''pytesseract''),
      (''Image Captioning'', ''caption''),
      (''Visual QA'', ''vqa''),
      (''Image Classification'', ''other''),
      (''Object Detection'', ''other''),
      (''Style Transfer'', ''other''),
      (''Medical Diagnosis'', ''medical''),
      (''Other'', ''other'')]"

text \<open>
  \<^verbatim>\<open>random.choice(seq)\<close> is \<^verbatim>\<open>seq[randbelow(len(seq))]\<close>; the index drawn is the
  argument \<open>r\<close>.
\<close>

definition random_choice :: "nat \<Rightarrow> 'a list \<Rightarrow> exc + 'a" where
  "random_choice r seq =
     (if r < length seq then Inr (seq ! r) else Inl (IndexError ''list index out of range''))"

text \<open>
  The part of \<^verbatim>\<open>handle_task\<close> that chooses the endpoint and the model name
  (lines 132 to 152), for the draw \<open>r\<close> of the random source.
\<close>

definition dispatch :: "nat \<Rightarrow> string \<Rightarrow> exc + string \<times> string" where
  "dispatch r task =
     (let model_used = ''pytesseract'';
          endpoint = dict_get task_mapping task ''other''
      in if task = ''OCR'' then
           (case random_choice r [''ocr'', ''simocr''] of
              Inl e \<Rightarrow> Inl e
            | Inr endpoint \<Rightarrow>
                Inr (endpoint,
                     if endpoint = ''simocr'' then ''simocr''
                     else if endpoint = ''ocr'' then ''pytesseract''
                     else model_used))
         else Inr (endpoint, model_used))"

definition task_url :: "string \<Rightarrow> string" where
  "task_url endpoint = ''http://localhost:8000/task/'' @ endpoint"

text \<open>The body of the \<^verbatim>\<open>try\<close> block of \<^verbatim>\<open>handle_task\<close>.\<close>

definition handle_task_body ::
    "nat \<Rightarrow> (string \<Rightarrow> string \<Rightarrow> string \<Rightarrow> exc + response) \<Rightarrow> string \<Rightarrow> string \<Rightarrow> string
      \<Rightarrow> exc + py_value \<times> string" where
  "handle_task_body r post task image_path question =
     (case dispatch r task of
        Inl e \<Rightarrow> Inl e
      | Inr (endpoint, model_used) \<Rightarrow>
          (case post (task_url endpoint) image_path question of
             Inl e \<Rightarrow> Inl e
           | Inr response \<Rightarrow>
               if status_code response = 200 then
                 (case resp_json response of
                    Inl e \<Rightarrow> Inl e
                  | Inr NotObject \<Rightarrow> Inl (AttributeError ''object has no attribute get'')
                  | Inr (Object result_data) \<Rightarrow>
                      Inr (dict_get result_data ''result'' (PyStr ''Task completed successfully''),
                           model_used))
               else
                 Inr (PyStr (''Task handling failed with status ''
                               @ str_int (status_code response)), model_used)))"

definition handle_task ::
    "nat \<Rightarrow> (string \<Rightarrow> string \<Rightarrow> string \<Rightarrow> exc + response) \<Rightarrow> string \<Rightarrow> string \<Rightarrow> string
      \<Rightarrow> exc + py_value \<times> string" where
  "handle_task r post task image_path question =
     try_except (handle_task_body r post task image_path question)
       (\<lambda>e. Inr (PyStr ''Task handling failed due to an error'', ''error''))"

section \<open>Request handler and log store (analyze.py)\<close>

record log_entry =
  log_id :: string
  log_timestamp :: string
  log_task :: string
  log_model :: string
  log_latency :: real
  log_result :: py_value

text \<open>
  The file \<^verbatim>\<open>logs.json\<close>: absent, present with a content that \<^verbatim>\<open>json.load\<close>
  rejects, or present with the list of entries that \<^verbatim>\<open>analyze_image\<close> wrote. The
  JSON text itself is not modelled.
\<close>

datatype logs_file = Missing | Corrupt | Loaded "log_entry list"

record upload =
  content_type :: string
  filename :: string

record analysis =
  out_id :: string
  out_task :: string
  out_question :: string
  out_filename :: string
  out_result :: py_value
  out_latency :: real
  out_model :: string

text \<open>What the endpoint answers: the JSON error response, or the result dict.\<close>

datatype reply = JSONResponse int string | Result analysis

text \<open>\<^verbatim>\<open>os.path.basename\<close> on a POSIX path.\<close>

definition basename :: "string \<Rightarrow> string" where
  "basename path = rev (takeWhile (\<lambda>c. c \<noteq> CHR ''/'') (rev path))"

text \<open>
  The part of \<^verbatim>\<open>analyze_image\<close> that reads the existing logs (lines 84 to 92): a
  missing file and a \<^verbatim>\<open>JSONDecodeError\<close> both leave the empty list.
\<close>

definition read_logs :: "logs_file \<Rightarrow> log_entry list" where
  "read_logs file = (case file of Missing \<Rightarrow> [] | Corrupt \<Rightarrow> [] | Loaded logs \<Rightarrow> logs)"

text \<open>
  \<^verbatim>\<open>analyze_image\<close>: the reply and the content of \<^verbatim>\<open>logs.json\<close> afterwards. An
  exception that leaves the function leaves the file as it was.
\<close>

definition analyze_image :: "env \<Rightarrow> string \<Rightarrow> upload \<Rightarrow> logs_file \<Rightarrow> exc + reply \<times> logs_file" where
  "analyze_image e question upl file =
     (if content_type upl \<notin> set [''image/jpeg'', ''image/png''] then
        Inr (JSONResponse 400 ''Only JPG and PNG images are allowed'', file)
      else
        case save_upload e of
          Inl err \<Rightarrow> Inl err
        | Inr file_path \<Rightarrow>
        (case image_caption e of
          Inl err \<Rightarrow> Inl err
        | Inr image_context \<Rightarrow>
        (case classify_task_with_qwen e question (Some image_context) of
          Inl err \<Rightarrow> Inl err
        | Inr task \<Rightarrow>
        (case handle_task (randbelow e) (client_post e) task file_path question of
          Inl err \<Rightarrow> Inl err
        | Inr (res, model_used) \<Rightarrow>
            (let total_latency = clock_end e - clock_start e;
                 entry = \<lparr>log_id = uuid4 e, log_timestamp = now_isoformat e, log_task = task,
                           log_model = model_used, log_latency = py_round total_latency 2,
                           log_result = res\<rparr>;
                 logs = read_logs file @ [entry]
             in Inr (Result \<lparr>out_id = log_id entry, out_task = task, out_question = question,
                              out_filename = basename file_path, out_result = res,
                              out_latency = total_latency, out_model = model_used\<rparr>,
                     Loaded logs))))))"

text \<open>\<^verbatim>\<open>get_result\<close>\<close>

definition get_result :: "logs_file \<Rightarrow> string \<Rightarrow> exc + log_entry" where
  "get_result file result_id =
     (case file of
        Missing \<Rightarrow> Inl (HTTPException 404 ''No results found'')
      | Corrupt \<Rightarrow> Inl (ValueError ''JSONDecodeError'')
      | Loaded logs \<Rightarrow>
          (case find (\<lambda>entry. log_id entry = result_id) logs of
             None \<Rightarrow> Inl (HTTPException 404 (''Result not found for ID: '' @ result_id))
           | Some result_entry \<Rightarrow> Inr result_entry))"

section \<open>The normalizer as the specification words it\<close>

definition punctuation :: string where
  "punctuation = ''.,?!''"

text \<open>Strip the punctuation characters, then lower-case.\<close>

definition strip_and_lower :: "string \<Rightarrow> string" where
  "strip_and_lower raw = lower (filter (\<lambda>c. c \<notin> set punctuation) raw)"

text \<open>The lower-cased display string of a label occurs in the normalised response.\<close>

definition label_occurs :: "string \<Rightarrow> string \<Rightarrow> bool" where
  "label_occurs label raw = sublist (lower label) (strip_and_lower raw)"

section \<open>Example environments\<close>

text \<open>
  Concrete inputs on which the theorems below are evaluated. In \<open>offline_env\<close>
  no environment variable is set and nothing answers: every probe and every
  request raises a connection error and the local model is not installed.
\<close>

definition example_int :: "string \<Rightarrow> exc + int" where
  "example_int s =
     (if s = ''100'' then Inr 100 else if s = ''30'' then Inr 30
      else Inl (ValueError ''invalid literal for int()''))"

definition example_float :: "string \<Rightarrow> exc + real" where
  "example_float s =
     (if s = ''0.7'' then Inr (7 / 10) else Inl (ValueError ''could not convert string to float''))"

definition offline_env :: env where
  "offline_env =
     \<lparr>environ = Map.empty,
      py_int = example_int,
      py_float = example_float,
      session_head = (\<lambda>url. Inl (ConnectionError ''unreachable'')),
      session_head_generate = (\<lambda>url. Inl (ConnectionError ''unreachable'')),
      session_post = (\<lambda>url prompt. Inl (ConnectionError ''unreachable'')),
      requests_post = (\<lambda>url prompt. Inl (ConnectionError ''unreachable'')),
      qwen_local = (\<lambda>prompt. Inl (OtherException ''qwen-model is not a local folder'')),
      randbelow = 0,
      client_post = (\<lambda>url image_path question. Inl (ConnectionError ''unreachable'')),
      save_upload = Inr ''/srv/uploads/sign.png'',
      image_caption = Inr ''a sign on a pole'',
      clock_start = 10,
      clock_end = 25 / 2,
      uuid4 = ''0b5c8f0e'',
      now_isoformat = ''2025-01-01T12:00:00''\<rparr>"


text \<open>
  The Cerebras tier selected and its first endpoint up: the completion request
  is answered with status 200 and the JSON object \<^verbatim>\<open>{"text": "Fallback response: busy"}\<close>.
\<close>

definition cerebras_reply_env :: env where
  "cerebras_reply_env =
     offline_env\<lparr>
       environ := [''USE_CEREBRAS_QWEN'' \<mapsto> ''true''],
       session_head := (\<lambda>url. Inr 200),
       session_head_generate := (\<lambda>url. Inr 200),
       session_post := (\<lambda>url prompt.
          Inr \<lparr>status_code = 200, resp_text = [],
               resp_json = Inr (Object [''text'' \<mapsto> PyStr ''Fallback response: busy''])\<rparr>)\<rparr>"

text \<open>
  A prober input: the first candidate raises, the second answers 503, the third
  answers 404 and the fourth 200.
\<close>

definition example_config :: CerebrasConfig where
  "example_config =
     \<lparr>api_url = ''https://a.example/v1'', api_key = None, model_name = ''qwen-7b'',
      max_tokens = 100, temperature = 7 / 10, timeout = 30,
      fallback_urls = [''https://b.example/v1'', ''https://c.example/v1'',
                       ''https://d.example/v1'']\<rparr>"

definition example_head :: "string \<Rightarrow> exc + int" where
  "example_head url =
     (if url = ''https://a.example/v1'' then Inl (Timeout ''timed out'')
      else if url = ''https://b.example/v1'' then Inr 503
      else if url = ''https://c.example/v1'' then Inr 404
      else Inr 200)"

definition dead_head :: "string \<Rightarrow> exc + int" where
  "dead_head url =
     (if url = ''https://b.example/v1'' then Inr 500 else Inl (ConnectionError ''unreachable''))"

text \<open>
  The task server answering as \<^const>\<open>medical_task\<close> does when the model cannot be
  loaded, and the classifier service answering \<open>Medical Diagnosis\<close>.
\<close>

definition medical_server :: "string \<Rightarrow> string \<Rightarrow> string \<Rightarrow> exc + response" where
  "medical_server url image_path question =
     (if url = ''http://localhost:8000/task/medical'' then
        Inr \<lparr>status_code = 200, resp_text = [],
             resp_json = Inr (json_of_task_response
               (medical_task image_path question (Inl (OtherException ''no model'')) (Inr 0) 0 1))\<rparr>
      else Inl (ConnectionError ''unreachable''))"

definition medical_env :: env where
  "medical_env =
     offline_env\<lparr>
       requests_post := (\<lambda>url prompt.
          Inr \<lparr>status_code = 200, resp_text = [],
               resp_json = Inr (Object [''response'' \<mapsto> PyStr ''Medical Diagnosis''])\<rparr>),
       client_post := medical_server\<rparr>"

text \<open>A log file with one earlier entry.\<close>

definition earlier_entry :: log_entry where
  "earlier_entry =
     \<lparr>log_id = ''77aa01c2'', log_timestamp = ''2024-12-31T09:30:00'', log_task = ''OCR'',
      log_model = ''simocr'', log_latency = 3 / 2, log_result = PyStr ''STOP''\<rparr>"

definition example_upload :: upload where
  "example_upload = \<lparr>content_type = ''image/png'', filename = ''sign.png''\<rparr>"


text \<open>
  Nothing reachable, and the wall clock set back during the request: the last
  reading of \<^verbatim>\<open>time.time()\<close> is five seconds before the first.
\<close>

definition clock_back_env :: env where
  "clock_back_env = offline_env\<lparr>clock_start := 10, clock_end := 5\<rparr>"

section \<open>Properties of the response normalizer\<close>

lemma replace_empty_filter: "replace c [] s = filter (\<lambda>x. x \<noteq> c) s"
  by (induction s) (simp_all add: replace_def)

lemma lower_char_punctuation: "lower_char x \<in> set punctuation \<longleftrightarrow> x \<in> set punctuation"
  by (simp add: lower_char_def upper_letters_def lower_letters_def punctuation_def)

lemma filter_punctuation_lower:
  "filter (\<lambda>c. c \<notin> set punctuation) (lower s) = lower (filter (\<lambda>c. c \<notin> set punctuation) s)"
  by (induction s) (simp_all add: lower_def lower_char_punctuation)

lemma stripped_text:
  "replace CHR ''!'' [] (replace CHR ''?'' [] (replace CHR '','' []
     (replace CHR ''.'' [] (lower response)))) = strip_and_lower response"
proof -
  have "replace CHR ''!'' [] (replace CHR ''?'' [] (replace CHR '','' []
          (replace CHR ''.'' [] (lower response))))
        = filter (\<lambda>c. c \<notin> set punctuation) (lower response)"
    by (simp add: replace_empty_filter punctuation_def conj_commute conj_left_commute)
  then show ?thesis
    by (simp add: filter_punctuation_lower strip_and_lower_def)
qed

lemma parse_first_task_in:
  "parse_task_from_response raw = first_task_in valid_tasks (strip_and_lower raw)"
  by (simp add: parse_task_from_response_def stripped_text)

lemma first_task_in_split:
  "\<forall>u\<in>set pre. \<not> sublist (lower u) r \<Longrightarrow> sublist (lower t) r \<Longrightarrow>
   first_task_in (pre @ t # post) r = t"
  by (induction pre) simp_all

lemma first_task_in_none:
  "\<forall>u\<in>set ts. \<not> sublist (lower u) r \<Longrightarrow> first_task_in ts r = ''Other''"
  by (induction ts) simp_all

lemma first_task_in_member: "first_task_in ts r \<in> insert ''Other'' (set ts)"
  by (induction ts) auto

lemma parse_in_vocabulary: "parse_task_from_response raw \<in> set valid_tasks"
proof -
  have "first_task_in valid_tasks (strip_and_lower raw) \<in> insert ''Other'' (set valid_tasks)"
    by (rule first_task_in_member)
  then show ?thesis
    by (simp add: parse_first_task_in valid_tasks_def)
qed

lemma parse_nonempty: "parse_task_from_response raw \<noteq> []"
  using parse_in_vocabulary [of raw] by (auto simp: valid_tasks_def)

text \<open>
  C3. For every raw response, \<^const>\<open>parse_task_from_response\<close> returns a label of the
  vocabulary, namely the first label, in the declared order, whose lower-cased
  display string occurs in the response once the characters \<open>. , ? !\<close> are
  removed and the text is lower-cased (\<^const>\<open>label_occurs\<close>). So a response in
  which exactly one label occurs gives that label, a response in which several
  occur gives the earliest of them, and a response in which none occurs gives
  \<open>Other\<close>.
\<close>

theorem normalize_first_vocabulary_match:
  "parse_task_from_response raw \<in> set valid_tasks \<and>
   (\<forall>pre t post. valid_tasks = pre @ t # post \<and> label_occurs t raw \<and>
        (\<forall>u\<in>set pre. \<not> label_occurs u raw)
      \<longrightarrow> parse_task_from_response raw = t) \<and>
   (\<forall>t\<in>set valid_tasks. label_occurs t raw \<and>
        (\<forall>u\<in>set valid_tasks. label_occurs u raw \<longrightarrow> u = t)
      \<longrightarrow> parse_task_from_response raw = t) \<and>
   ((\<forall>t\<in>set valid_tasks. \<not> label_occurs t raw)
      \<longrightarrow> parse_task_from_response raw = ''Other'')"
proof (intro conjI allI ballI impI)
  show "parse_task_from_response raw \<in> set valid_tasks"
    by (rule parse_in_vocabulary)
next
  fix pre t post
  assume h: "valid_tasks = pre @ t # post \<and> label_occurs t raw \<and>
        (\<forall>u\<in>set pre. \<not> label_occurs u raw)"
  then have "sublist (lower t) (strip_and_lower raw)"
    and "\<forall>u\<in>set pre. \<not> sublist (lower u) (strip_and_lower raw)"
    by (simp_all add: label_occurs_def)
  then have "first_task_in (pre @ t # post) (strip_and_lower raw) = t"
    by (simp add: first_task_in_split)
  moreover from h have "valid_tasks = pre @ t # post" by blast
  ultimately show "parse_task_from_response raw = t"
    by (simp only: parse_first_task_in)
next
  fix t
  assume t: "t \<in> set valid_tasks"
    and h: "label_occurs t raw \<and> (\<forall>u\<in>set valid_tasks. label_occurs u raw \<longrightarrow> u = t)"
  from t obtain pre post where d: "valid_tasks = pre @ t # post" and n: "t \<notin> set pre"
    by (auto dest: split_list_first)
  have "\<forall>u\<in>set pre. \<not> sublist (lower u) (strip_and_lower raw)"
  proof
    fix u assume u: "u \<in> set pre"
    then have "u \<in> set valid_tasks" by (simp add: d)
    with h u n show "\<not> sublist (lower u) (strip_and_lower raw)"
      by (auto simp: label_occurs_def)
  qed
  with h have "first_task_in (pre @ t # post) (strip_and_lower raw) = t"
    by (simp add: label_occurs_def first_task_in_split)
  with d show "parse_task_from_response raw = t"
    by (simp only: parse_first_task_in)
next
  assume "\<forall>t\<in>set valid_tasks. \<not> label_occurs t raw"
  then show "parse_task_from_response raw = ''Other''"
    by (simp add: parse_first_task_in label_occurs_def first_task_in_none)
qed

theorem normalize_first_vocabulary_match_witness:
  "(filter (\<lambda>u. label_occurs u ''It is Visual QA!'') valid_tasks = [''Visual QA''] \<and>
    parse_task_from_response ''It is Visual QA!'' = ''Visual QA'') \<and>
   (filter (\<lambda>u. label_occurs u ''Object Detection, or visual qa?'') valid_tasks
      = [''Visual QA'', ''Object Detection''] \<and>
    parse_task_from_response ''Object Detection, or visual qa?'' = ''Visual QA'') \<and>
   (filter (\<lambda>u. label_occurs u ''a red car'') valid_tasks = [] \<and>
    parse_task_from_response ''a red car'' = ''Other'')"
proof -
  have a0: "filter (\<lambda>u. label_occurs u ''It is Visual QA!'') valid_tasks = [''Visual QA'']"
    by code_simp
  have a1: "label_occurs ''Visual QA'' ''It is Visual QA!''"
    by code_simp
  have a2: "\<forall>u\<in>set valid_tasks. label_occurs u ''It is Visual QA!'' \<longrightarrow> u = ''Visual QA''"
    by code_simp
  have a3: "''Visual QA'' \<in> set valid_tasks"
    by (simp add: valid_tasks_def)
  have a: "parse_task_from_response ''It is Visual QA!'' = ''Visual QA''"
    using normalize_first_vocabulary_match [of "''It is Visual QA!''"] a1 a2 a3 by blast
  have b0: "filter (\<lambda>u. label_occurs u ''Object Detection, or visual qa?'') valid_tasks
      = [''Visual QA'', ''Object Detection'']"
    by code_simp
  have b1: "label_occurs ''Visual QA'' ''Object Detection, or visual qa?''"
    by code_simp
  have b3: "valid_tasks = [''OCR'', ''Image Captioning''] @ ''Visual QA'' #
      [''Image Classification'', ''Object Detection'', ''Style Transfer'',
       ''Medical Diagnosis'', ''Other'']"
    by (simp add: valid_tasks_def)
  have b4: "\<forall>u\<in>set [''OCR'', ''Image Captioning''].
              \<not> label_occurs u ''Object Detection, or visual qa?''"
    by code_simp
  have b: "parse_task_from_response ''Object Detection, or visual qa?'' = ''Visual QA''"
    using normalize_first_vocabulary_match [of "''Object Detection, or visual qa?''"] b1 b3 b4
    by blast
  have c0: "filter (\<lambda>u. label_occurs u ''a red car'') valid_tasks = []"
    by code_simp
  have c1: "\<forall>t\<in>set valid_tasks. \<not> label_occurs t ''a red car''"
    by code_simp
  have c: "parse_task_from_response ''a red car'' = ''Other''"
    using normalize_first_vocabulary_match [of "''a red car''"] c1 by blast
  from a0 a b0 b c0 c show ?thesis by blast
qed

section \<open>Properties of the local keyword classifier\<close>

text \<open>
  C9. Whenever the lower-cased question contains a Medical Diagnosis keyword and
  an OCR keyword, \<^const>\<open>mock_classify_task\<close> answers \<open>Medical Diagnosis\<close>; the question
  \<open>read the patient's diagnosis\<close> is classified as \<open>Medical Diagnosis\<close>.
\<close>

theorem medical_before_ocr:
  "((\<exists>k\<in>set medical_keywords. sublist k (lower question)) \<and>
    (\<exists>k\<in>set ocr_keywords. sublist k (lower question))
      \<longrightarrow> mock_classify_task question = ''Medical Diagnosis'') \<and>
   mock_classify_task ''read the patient's diagnosis'' = ''Medical Diagnosis''"
proof
  show "(\<exists>k\<in>set medical_keywords. sublist k (lower question)) \<and>
    (\<exists>k\<in>set ocr_keywords. sublist k (lower question))
      \<longrightarrow> mock_classify_task question = ''Medical Diagnosis''"
    by (simp add: mock_classify_task_def any_in_def list_ex_iff)
  show "mock_classify_task ''read the patient's diagnosis'' = ''Medical Diagnosis''"
    by code_simp
qed

theorem medical_before_ocr_witness:
  "filter (\<lambda>k. sublist k (lower ''please read the doctor's note'')) medical_keywords
     = [''doctor''] \<and>
   filter (\<lambda>k. sublist k (lower ''please read the doctor's note'')) ocr_keywords
     = [''read''] \<and>
   mock_classify_task ''please read the doctor's note'' = ''Medical Diagnosis''"
proof -
  have m0: "filter (\<lambda>k. sublist k (lower ''please read the doctor's note'')) medical_keywords
     = [''doctor'']"
    by code_simp
  have t0: "filter (\<lambda>k. sublist k (lower ''please read the doctor's note'')) ocr_keywords
     = [''read'']"
    by code_simp
  have m: "\<exists>k\<in>set medical_keywords. sublist k (lower ''please read the doctor's note'')"
    by code_simp
  have t: "\<exists>k\<in>set ocr_keywords. sublist k (lower ''please read the doctor's note'')"
    by code_simp
  have "mock_classify_task ''please read the doctor's note'' = ''Medical Diagnosis''"
    using medical_before_ocr [of "''please read the doctor's note''"] m t by blast
  with m0 t0 show ?thesis by blast
qed

section \<open>Properties of the endpoint prober\<close>

lemma test_endpoint_connectivity_iff:
  "test_endpoint_connectivity head url \<longleftrightarrow> (\<exists>status. head url = Inr status \<and> status < 500)"
  by (cases "head url") (simp_all add: test_endpoint_connectivity_def)

lemma try_urls_first:
  "\<forall>u\<in>set pre. \<not> test_endpoint_connectivity head u \<Longrightarrow> test_endpoint_connectivity head url \<Longrightarrow>
   try_urls head (pre @ url # post) = (Some url, pre @ [url])"
  by (induction pre) simp_all

lemma try_urls_none:
  "\<forall>u\<in>set urls. \<not> test_endpoint_connectivity head u \<Longrightarrow> try_urls head urls = (None, urls)"
  by (induction urls) simp_all

lemma find_working_endpoint_none:
  "\<forall>u\<in>set (api_url config # fallback_urls config). \<not> test_endpoint_connectivity head u \<Longrightarrow>
   find_working_endpoint config head = (None, api_url config # fallback_urls config)"
  using try_urls_none [of "api_url config # fallback_urls config" head]
  by (simp add: find_working_endpoint_def)

text \<open>
  C4. The candidates are \<open>api_url\<close> followed by \<open>fallback_urls\<close>. If a candidate
  \<open>url\<close> answers its probe with a status below 500 and every candidate before it
  (\<open>pre\<close>) either raises or answers with a status of 500 or more, then
  \<^const>\<open>find_working_endpoint\<close> returns \<open>url\<close> and the probes made are exactly those of
  \<open>pre\<close> and \<open>url\<close>, in order: no candidate after \<open>url\<close> (\<open>post\<close>) is probed. If
  every candidate raises or answers with 500 or more, the result is \<open>None\<close> and
  every candidate was probed once.
\<close>

theorem find_working_endpoint_first_reachable:
  "(\<forall>pre url post.
      api_url config # fallback_urls config = pre @ url # post \<and>
      (\<exists>status. head url = Inr status \<and> status < 500) \<and>
      (\<forall>u\<in>set pre. (\<exists>e. head u = Inl e) \<or> (\<exists>status. head u = Inr status \<and> 500 \<le> status))
    \<longrightarrow> find_working_endpoint config head = (Some url, pre @ [url])) \<and>
   ((\<forall>u\<in>set (api_url config # fallback_urls config).
        (\<exists>e. head u = Inl e) \<or> (\<exists>status. head u = Inr status \<and> 500 \<le> status))
    \<longrightarrow> find_working_endpoint config head = (None, api_url config # fallback_urls config))"
proof (intro conjI allI impI)
  fix pre url post
  assume h: "api_url config # fallback_urls config = pre @ url # post \<and>
      (\<exists>status. head url = Inr status \<and> status < 500) \<and>
      (\<forall>u\<in>set pre. (\<exists>e. head u = Inl e) \<or> (\<exists>status. head u = Inr status \<and> 500 \<le> status))"
  then have up: "test_endpoint_connectivity head url"
    by (simp add: test_endpoint_connectivity_iff)
  from h have down: "\<forall>u\<in>set pre. \<not> test_endpoint_connectivity head u"
    by (auto simp: test_endpoint_connectivity_iff)
  from h have "find_working_endpoint config head = try_urls head (pre @ url # post)"
    by (simp add: find_working_endpoint_def)
  with try_urls_first [OF down up] show "find_working_endpoint config head = (Some url, pre @ [url])"
    by simp
next
  assume "\<forall>u\<in>set (api_url config # fallback_urls config).
        (\<exists>e. head u = Inl e) \<or> (\<exists>status. head u = Inr status \<and> 500 \<le> status)"
  then have "\<forall>u\<in>set (api_url config # fallback_urls config). \<not> test_endpoint_connectivity head u"
    by (auto simp: test_endpoint_connectivity_iff)
  then show "find_working_endpoint config head = (None, api_url config # fallback_urls config)"
    by (rule find_working_endpoint_none)
qed

theorem find_working_endpoint_first_reachable_witness:
  "map example_head (api_url example_config # fallback_urls example_config)
     = [Inl (Timeout ''timed out''), Inr 503, Inr 404, Inr 200] \<and>
   find_working_endpoint example_config example_head
     = (Some ''https://c.example/v1'',
        [''https://a.example/v1'', ''https://b.example/v1'', ''https://c.example/v1'']) \<and>
   map dead_head (api_url example_config # fallback_urls example_config)
     = [Inl (ConnectionError ''unreachable''), Inr 500, Inl (ConnectionError ''unreachable''),
        Inl (ConnectionError ''unreachable'')] \<and>
   find_working_endpoint example_config dead_head
     = (None, api_url example_config # fallback_urls example_config)"
proof -
  have m1: "map example_head (api_url example_config # fallback_urls example_config)
     = [Inl (Timeout ''timed out''), Inr 503, Inr 404, Inr 200]"
    by (simp add: example_config_def example_head_def)
  have s: "api_url example_config # fallback_urls example_config
      = [''https://a.example/v1'', ''https://b.example/v1''] @ ''https://c.example/v1''
          # [''https://d.example/v1'']"
    by (simp add: example_config_def)
  have u: "\<exists>status. example_head ''https://c.example/v1'' = Inr status \<and> status < 500"
    by (simp add: example_head_def)
  have d: "\<forall>u\<in>set [''https://a.example/v1'', ''https://b.example/v1''].
      (\<exists>e. example_head u = Inl e) \<or> (\<exists>status. example_head u = Inr status \<and> 500 \<le> status)"
    by (simp add: example_head_def)
  have r1: "find_working_endpoint example_config example_head
     = (Some ''https://c.example/v1'',
        [''https://a.example/v1'', ''https://b.example/v1''] @ [''https://c.example/v1''])"
    using find_working_endpoint_first_reachable [of example_config example_head] s u d
    by blast
  have m2: "map dead_head (api_url example_config # fallback_urls example_config)
     = [Inl (ConnectionError ''unreachable''), Inr 500, Inl (ConnectionError ''unreachable''),
        Inl (ConnectionError ''unreachable'')]"
    by (simp add: example_config_def dead_head_def)
  have a: "\<forall>u\<in>set (api_url example_config # fallback_urls example_config).
      (\<exists>e. dead_head u = Inl e) \<or> (\<exists>status. dead_head u = Inr status \<and> 500 \<le> status)"
    by (simp add: example_config_def dead_head_def)
  have r2: "find_working_endpoint example_config dead_head
     = (None, api_url example_config # fallback_urls example_config)"
    using find_working_endpoint_first_reachable [of example_config dead_head] a
    by blast
  from m1 r1 m2 r2 show ?thesis by simp
qed

section \<open>Properties of the Cerebras fallback\<close>














section \<open>Properties of the classifier cascade\<close>

lemma classify_task_with_qwen_never_raises:
  "\<exists>label. classify_task_with_qwen e question image_context = Inr label"
  by (auto simp: classify_task_with_qwen_def Let_def try_except_def
           split: sum.splits option.splits)

lemma classify_without_cerebras_in_vocabulary:
  assumes "lower (getenv e ''USE_CEREBRAS_QWEN'' ''false'') \<noteq> ''true''"
  shows "\<exists>label\<in>set valid_tasks. classify_task_with_qwen e question image_context = Inr label"
proof -
  have other: "''Other'' \<in> set valid_tasks"
    by (simp add: valid_tasks_def)
  from assms show ?thesis
    by (auto simp: classify_task_with_qwen_def Let_def try_except_def qwen_api_attempt_def
          parse_in_vocabulary other
        split: sum.splits option.splits py_value.splits if_splits)
qed

text \<open>
  C1, at a failing input. The variable \<^verbatim>\<open>USE_CEREBRAS_QWEN\<close> is \<open>true\<close>, the first
  Cerebras endpoint answers its probes, and the completion request is answered
  with status 200 and the text \<open>Fallback response: busy\<close>. The cascade returns that
  text as it is, and it is not one of the eight labels.
\<close>

theorem cascade_returns_unparsed_cerebras_text:
  "classify_task_with_qwen cerebras_reply_env ''what color is the car'' None
     = Inr ''Fallback response: busy'' \<and>
   ''Fallback response: busy'' \<notin> set valid_tasks"
proof
  show "classify_task_with_qwen cerebras_reply_env ''what color is the car'' None
     = Inr ''Fallback response: busy''"
    by code_simp
  show "''Fallback response: busy'' \<notin> set valid_tasks"
    by (simp add: valid_tasks_def)
qed

text \<open>
  C2 fails as stated: with nothing reachable and the Cerebras tier not selected,
  the cascade answers \<open>Other\<close> for the question \<open>what color is the car\<close>, where the
  keyword classifier would answer \<open>Visual QA\<close>.
\<close>

theorem cascade_offline_is_not_keyword_classifier:
  "classify_task_with_qwen offline_env ''what color is the car'' None = Inr ''Other'' \<and>
   mock_classify_task ''what color is the car'' = ''Visual QA'' \<and>
   classify_task_with_qwen offline_env ''what color is the car'' None
     \<noteq> Inr (mock_classify_task ''what color is the car'')"
proof -
  have a: "classify_task_with_qwen offline_env ''what color is the car'' None = Inr ''Other''"
    by code_simp
  have b: "mock_classify_task ''what color is the car'' = ''Visual QA''"
    by code_simp
  from a b show ?thesis by simp
qed

lemma qwen_api_attempt_down:
  assumes "(\<exists>err. requests_post e (getenv e ''QWEN_API_URL'' ''http://localhost:8000/qwen/predict'')
                     prompt = Inl err) \<or>
           (\<exists>r. requests_post e (getenv e ''QWEN_API_URL'' ''http://localhost:8000/qwen/predict'')
                     prompt = Inr r \<and> status_code r \<noteq> 200)"
  shows "try_except (qwen_api_attempt e prompt) (\<lambda>api_error. Inr None) = Inr None"
  using assms
  by (auto simp: qwen_api_attempt_def call_qwen_model_api_def Let_def try_except_def
        split: sum.splits py_value.splits)

text \<open>
  C2, amended. Let the Cerebras tier not be selected, let the request of
  \<^const>\<open>call_qwen_model_api\<close> raise or be answered with a status other than 200, and
  let the local model raise. Then the cascade returns \<open>Other\<close>, whatever the
  question: it does not consult \<^const>\<open>mock_classify_task\<close>. Applied to the question
  itself, \<^const>\<open>mock_classify_task\<close> classifies \<open>read the text on this sign\<close> as \<open>OCR\<close>
  and \<open>what color is the car\<close> as \<open>Visual QA\<close>.
\<close>

theorem cascade_all_tiers_down_gives_other:
  "(lower (getenv e ''USE_CEREBRAS_QWEN'' ''false'') \<noteq> ''true'' \<and>
    ((\<exists>err. requests_post e (getenv e ''QWEN_API_URL'' ''http://localhost:8000/qwen/predict'')
               (prompt_template question (or_default image_context ''No image context provided''))
             = Inl err) \<or>
     (\<exists>r. requests_post e (getenv e ''QWEN_API_URL'' ''http://localhost:8000/qwen/predict'')
               (prompt_template question (or_default image_context ''No image context provided''))
             = Inr r \<and> status_code r \<noteq> 200)) \<and>
    (\<exists>err. qwen_local e
               (prompt_template question (or_default image_context ''No image context provided''))
             = Inl err)
    \<longrightarrow> classify_task_with_qwen e question image_context = Inr ''Other'') \<and>
   mock_classify_task ''read the text on this sign'' = ''OCR'' \<and>
   mock_classify_task ''what color is the car'' = ''Visual QA''"
proof (intro conjI impI)
  assume h: "lower (getenv e ''USE_CEREBRAS_QWEN'' ''false'') \<noteq> ''true'' \<and>
    ((\<exists>err. requests_post e (getenv e ''QWEN_API_URL'' ''http://localhost:8000/qwen/predict'')
               (prompt_template question (or_default image_context ''No image context provided''))
             = Inl err) \<or>
     (\<exists>r. requests_post e (getenv e ''QWEN_API_URL'' ''http://localhost:8000/qwen/predict'')
               (prompt_template question (or_default image_context ''No image context provided''))
             = Inr r \<and> status_code r \<noteq> 200)) \<and>
    (\<exists>err. qwen_local e
               (prompt_template question (or_default image_context ''No image context provided''))
             = Inl err)"
  then have api: "try_except
      (qwen_api_attempt e
         (prompt_template question (or_default image_context ''No image context provided'')))
      (\<lambda>api_error. Inr None) = Inr None"
    by (intro qwen_api_attempt_down) blast
  from h obtain err where "call_qwen_model_local e
      (prompt_template question (or_default image_context ''No image context provided'')) = Inl err"
    by (auto simp: call_qwen_model_local_def)
  with h api show "classify_task_with_qwen e question image_context = Inr ''Other''"
    by (simp add: classify_task_with_qwen_def Let_def try_except_def)
next
  show "mock_classify_task ''read the text on this sign'' = ''OCR''"
    by code_simp
next
  show "mock_classify_task ''what color is the car'' = ''Visual QA''"
    by code_simp
qed

theorem cascade_all_tiers_down_gives_other_witness:
  "lower (getenv offline_env ''USE_CEREBRAS_QWEN'' ''false'') = ''false'' \<and>
   requests_post offline_env (getenv offline_env ''QWEN_API_URL'' ''http://localhost:8000/qwen/predict'')
     (prompt_template ''read the text on this sign'' (or_default None ''No image context provided''))
     = Inl (ConnectionError ''unreachable'') \<and>
   qwen_local offline_env
     (prompt_template ''read the text on this sign'' (or_default None ''No image context provided''))
     = Inl (OtherException ''qwen-model is not a local folder'') \<and>
   classify_task_with_qwen offline_env ''read the text on this sign'' None = Inr ''Other''"
proof -
  have s: "lower (getenv offline_env ''USE_CEREBRAS_QWEN'' ''false'') = ''false''"
    by code_simp
  then have n: "lower (getenv offline_env ''USE_CEREBRAS_QWEN'' ''false'') \<noteq> ''true''"
    by simp
  have p: "requests_post offline_env
     (getenv offline_env ''QWEN_API_URL'' ''http://localhost:8000/qwen/predict'')
     (prompt_template ''read the text on this sign'' (or_default None ''No image context provided''))
     = Inl (ConnectionError ''unreachable'')"
    by (simp add: offline_env_def)
  have l: "qwen_local offline_env
     (prompt_template ''read the text on this sign'' (or_default None ''No image context provided''))
     = Inl (OtherException ''qwen-model is not a local folder'')"
    by (simp add: offline_env_def)
  have "classify_task_with_qwen offline_env ''read the text on this sign'' None = Inr ''Other''"
    using cascade_all_tiers_down_gives_other [of offline_env "''read the text on this sign''" None]
      n p l
    by blast
  with s p l show ?thesis by blast
qed

section \<open>Properties of the dispatcher\<close>













lemma dispatch_medical: "dispatch r ''Medical Diagnosis'' = Inr (''medical'', ''pytesseract'')"
  by (simp add: dispatch_def dict_get_def task_mapping_def)

lemma handle_task_medical_server:
  "handle_task r medical_server ''Medical Diagnosis'' image_path question
     = Inr (PyStr ''Unable to perform medical analysis'', ''pytesseract'')"
  by (simp add: handle_task_def handle_task_body_def dispatch_medical try_except_def task_url_def
        medical_server_def json_of_task_response_def json_encode_def medical_task_def
        dict_get_def)

text \<open>
  C6, at a failing input. Dispatching \<open>Medical Diagnosis\<close> selects the endpoint
  \<open>medical\<close> for every draw, and \<^const>\<open>medical_task\<close> names its model \<open>ResNet-50\<close> on
  each of its paths. The model name that \<^const>\<open>handle_task\<close> returns, and that
  \<^const>\<open>analyze_image\<close> writes into the log entry and the reply, is \<open>pytesseract\<close>.
\<close>

theorem medical_dispatch_records_pytesseract:
  "dispatch r ''Medical Diagnosis'' = Inr (''medical'', ''pytesseract'') \<and>
   model_name_of (medical_task image_path question load infer start_time end_time) = ''ResNet-50'' \<and>
   handle_task r medical_server ''Medical Diagnosis'' image_path question
     = Inr (PyStr ''Unable to perform medical analysis'', ''pytesseract'') \<and>
   analyze_image medical_env ''is this scan normal'' example_upload Missing
     = Inr (Result \<lparr>out_id = ''0b5c8f0e'', out_task = ''Medical Diagnosis'',
                     out_question = ''is this scan normal'', out_filename = ''sign.png'',
                     out_result = PyStr ''Unable to perform medical analysis'',
                     out_latency = 5 / 2, out_model = ''pytesseract''\<rparr>,
            Loaded [\<lparr>log_id = ''0b5c8f0e'', log_timestamp = ''2025-01-01T12:00:00'',
                     log_task = ''Medical Diagnosis'', log_model = ''pytesseract'',
                     log_latency = 5 / 2,
                     log_result = PyStr ''Unable to perform medical analysis''\<rparr>])"
proof (intro conjI)
  show "dispatch r ''Medical Diagnosis'' = Inr (''medical'', ''pytesseract'')"
    by (rule dispatch_medical)
  show "model_name_of (medical_task image_path question load infer start_time end_time)
          = ''ResNet-50''"
    by (simp add: medical_task_def Let_def split: sum.splits)
  show "handle_task r medical_server ''Medical Diagnosis'' image_path question
     = Inr (PyStr ''Unable to perform medical analysis'', ''pytesseract'')"
    by (rule handle_task_medical_server)
  have c: "classify_task_with_qwen medical_env ''is this scan normal'' (Some ''a sign on a pole'')
             = Inr ''Medical Diagnosis''"
    by code_simp
  have r: "py_round (5 / 2) 2 = 5 / 2"
    by (simp add: py_round_def Let_def)
  have b: "basename ''/srv/uploads/sign.png'' = ''sign.png''"
    by code_simp
  have e: "save_upload medical_env = Inr ''/srv/uploads/sign.png''"
      "image_caption medical_env = Inr ''a sign on a pole''"
      "client_post medical_env = medical_server"
      "clock_end medical_env - clock_start medical_env = 5 / 2"
      "uuid4 medical_env = ''0b5c8f0e''"
      "now_isoformat medical_env = ''2025-01-01T12:00:00''"
    by (simp_all add: medical_env_def offline_env_def)
  show "analyze_image medical_env ''is this scan normal'' example_upload Missing
     = Inr (Result \<lparr>out_id = ''0b5c8f0e'', out_task = ''Medical Diagnosis'',
                     out_question = ''is this scan normal'', out_filename = ''sign.png'',
                     out_result = PyStr ''Unable to perform medical analysis'',
                     out_latency = 5 / 2, out_model = ''pytesseract''\<rparr>,
            Loaded [\<lparr>log_id = ''0b5c8f0e'', log_timestamp = ''2025-01-01T12:00:00'',
                     log_task = ''Medical Diagnosis'', log_model = ''pytesseract'',
                     log_latency = 5 / 2,
                     log_result = PyStr ''Unable to perform medical analysis''\<rparr>])"
    by (simp add: analyze_image_def example_upload_def e c handle_task_medical_server r b
          read_logs_def Let_def)
qed

section \<open>Properties of the request handler and the log store\<close>

lemma py_round_nonneg: "0 \<le> x \<Longrightarrow> 0 \<le> py_round x n"
  by (auto simp add: py_round_def Let_def)

lemma handle_task_fault:
  "handle_task_body r post task image_path question = Inl err \<Longrightarrow>
   handle_task r post task image_path question
     = Inr (PyStr ''Task handling failed due to an error'', ''error'')"
  by (simp add: handle_task_def try_except_def)

lemma analyze_image_handler_fault:
  assumes "content_type upl \<in> set [''image/jpeg'', ''image/png'']"
    and "save_upload e = Inr file_path"
    and "image_caption e = Inr caption"
    and "classify_task_with_qwen e question (Some caption) = Inr label"
    and "handle_task_body (randbelow e) (client_post e) label file_path question = Inl err"
  shows "analyze_image e question upl file
     = Inr (Result \<lparr>out_id = uuid4 e, out_task = label, out_question = question,
                     out_filename = basename file_path,
                     out_result = PyStr ''Task handling failed due to an error'',
                     out_latency = clock_end e - clock_start e, out_model = ''error''\<rparr>,
            Loaded (read_logs file @
              [\<lparr>log_id = uuid4 e, log_timestamp = now_isoformat e, log_task = label,
                log_model = ''error'', log_latency = py_round (clock_end e - clock_start e) 2,
                log_result = PyStr ''Task handling failed due to an error''\<rparr>]))"
proof -
  from assms(1) have ct: "\<not> content_type upl \<notin> set [''image/jpeg'', ''image/png'']"
    by simp
  show ?thesis
    unfolding analyze_image_def
    by (simp only: ct if_False assms(2,3,4) handle_task_fault [OF assms(5)] sum.case
          prod.case Let_def log_entry.simps)
qed

text \<open>
  C7 fails as stated. The latency is the last reading of \<^verbatim>\<open>time.time()\<close> minus the
  first, and that clock can be set back. In \<open>clock_back_env\<close> the handler request
  raises and the clock loses five seconds during the request: the reply and the
  one entry appended have the model name \<open>error\<close> and the latency \<open>-5\<close>.
\<close>

theorem clock_set_back_gives_negative_latency:
  "handle_task_body (randbelow clock_back_env) (client_post clock_back_env) ''Other''
     ''/srv/uploads/sign.png'' ''what color is the car'' = Inl (ConnectionError ''unreachable'') \<and>
   analyze_image clock_back_env ''what color is the car'' example_upload Missing
     = Inr (Result \<lparr>out_id = ''0b5c8f0e'', out_task = ''Other'',
                     out_question = ''what color is the car'', out_filename = ''sign.png'',
                     out_result = PyStr ''Task handling failed due to an error'',
                     out_latency = - 5, out_model = ''error''\<rparr>,
            Loaded [\<lparr>log_id = ''0b5c8f0e'', log_timestamp = ''2025-01-01T12:00:00'',
                     log_task = ''Other'', log_model = ''error'', log_latency = - 5,
                     log_result = PyStr ''Task handling failed due to an error''\<rparr>]) \<and>
   \<not> (0::real) \<le> - 5"
proof -
  have e: "save_upload clock_back_env = Inr ''/srv/uploads/sign.png''"
      "image_caption clock_back_env = Inr ''a sign on a pole''"
      "randbelow clock_back_env = 0"
      "clock_end clock_back_env - clock_start clock_back_env = - 5"
      "uuid4 clock_back_env = ''0b5c8f0e''"
      "now_isoformat clock_back_env = ''2025-01-01T12:00:00''"
    by (simp_all add: clock_back_env_def offline_env_def)
  have ok: "content_type example_upload \<in> set [''image/jpeg'', ''image/png'']"
    by (simp add: example_upload_def)
  have c: "classify_task_with_qwen clock_back_env ''what color is the car''
             (Some ''a sign on a pole'') = Inr ''Other''"
    by code_simp
  have d: "dispatch 0 ''Other'' = Inr (''other'', ''pytesseract'')"
    by (simp add: dispatch_def dict_get_def task_mapping_def)
  have b: "handle_task_body (randbelow clock_back_env) (client_post clock_back_env) ''Other''
     ''/srv/uploads/sign.png'' ''what color is the car'' = Inl (ConnectionError ''unreachable'')"
    by (simp add: handle_task_body_def d clock_back_env_def offline_env_def)
  have r: "py_round (- 5) 2 = - 5"
    by (simp add: py_round_def Let_def)
  have n: "basename ''/srv/uploads/sign.png'' = ''sign.png''"
    by code_simp
  have a: "analyze_image clock_back_env ''what color is the car'' example_upload Missing
     = Inr (Result \<lparr>out_id = ''0b5c8f0e'', out_task = ''Other'',
                     out_question = ''what color is the car'', out_filename = ''sign.png'',
                     out_result = PyStr ''Task handling failed due to an error'',
                     out_latency = - 5, out_model = ''error''\<rparr>,
            Loaded [\<lparr>log_id = ''0b5c8f0e'', log_timestamp = ''2025-01-01T12:00:00'',
                     log_task = ''Other'', log_model = ''error'', log_latency = - 5,
                     log_result = PyStr ''Task handling failed due to an error''\<rparr>])"
    using analyze_image_handler_fault [OF ok e(1,2) c b, of Missing]
    by (simp add: e n r read_logs_def)
  have neg: "\<not> (0::real) \<le> - 5"
    by simp
  from b a neg show ?thesis
    by (intro conjI)
qed

text \<open>
  C7, amended. If anything inside the \<^verbatim>\<open>try\<close> block of \<^verbatim>\<open>handle_task\<close> raises (the
  request to the handler first of all), \<^const>\<open>handle_task\<close> returns the fixed message
  with the model name \<open>error\<close>. In \<^const>\<open>analyze_image\<close>, once the upload is accepted
  and stored, captioned and classified, such a fault gives a reply with the model
  name \<open>error\<close> and leaves \<^verbatim>\<open>logs.json\<close> holding the entries read before followed
  by exactly one new entry, whose model name is \<open>error\<close>; this holds whatever the
  clock does. The latency is the last clock reading minus the first: it is not
  negative, in the reply and in the entry, when the last reading is not before
  the first.
\<close>

theorem handler_fault_is_wrapped:
  "(handle_task_body r post task image_path question = Inl err
      \<longrightarrow> handle_task r post task image_path question
            = Inr (PyStr ''Task handling failed due to an error'', ''error'')) \<and>
   (content_type upl \<in> set [''image/jpeg'', ''image/png''] \<and>
    save_upload e = Inr file_path \<and>
    image_caption e = Inr caption \<and>
    classify_task_with_qwen e asked (Some caption) = Inr label \<and>
    handle_task_body (randbelow e) (client_post e) label file_path asked = Inl fault
      \<longrightarrow> analyze_image e asked upl file
            = Inr (Result \<lparr>out_id = uuid4 e, out_task = label, out_question = asked,
                            out_filename = basename file_path,
                            out_result = PyStr ''Task handling failed due to an error'',
                            out_latency = clock_end e - clock_start e, out_model = ''error''\<rparr>,
                   Loaded (read_logs file @
                     [\<lparr>log_id = uuid4 e, log_timestamp = now_isoformat e, log_task = label,
                       log_model = ''error'',
                       log_latency = py_round (clock_end e - clock_start e) 2,
                       log_result = PyStr ''Task handling failed due to an error''\<rparr>])) \<and>
          (clock_start e \<le> clock_end e
             \<longrightarrow> 0 \<le> clock_end e - clock_start e \<and>
                 0 \<le> py_round (clock_end e - clock_start e) 2))"
proof (intro conjI impI)
  assume "handle_task_body r post task image_path question = Inl err"
  then show "handle_task r post task image_path question
            = Inr (PyStr ''Task handling failed due to an error'', ''error'')"
    by (rule handle_task_fault)
next
  assume h: "content_type upl \<in> set [''image/jpeg'', ''image/png''] \<and>
    save_upload e = Inr file_path \<and>
    image_caption e = Inr caption \<and>
    classify_task_with_qwen e asked (Some caption) = Inr label \<and>
    handle_task_body (randbelow e) (client_post e) label file_path asked = Inl fault"
  then have a1: "content_type upl \<in> set [''image/jpeg'', ''image/png'']"
    and a2: "save_upload e = Inr file_path"
    and a3: "image_caption e = Inr caption"
    and a4: "classify_task_with_qwen e asked (Some caption) = Inr label"
    and a5: "handle_task_body (randbelow e) (client_post e) label file_path asked = Inl fault"
    by blast+
  show "analyze_image e asked upl file
            = Inr (Result \<lparr>out_id = uuid4 e, out_task = label, out_question = asked,
                            out_filename = basename file_path,
                            out_result = PyStr ''Task handling failed due to an error'',
                            out_latency = clock_end e - clock_start e, out_model = ''error''\<rparr>,
                   Loaded (read_logs file @
                     [\<lparr>log_id = uuid4 e, log_timestamp = now_isoformat e, log_task = label,
                       log_model = ''error'',
                       log_latency = py_round (clock_end e - clock_start e) 2,
                       log_result = PyStr ''Task handling failed due to an error''\<rparr>]))"
    by (rule analyze_image_handler_fault [OF a1 a2 a3 a4 a5])
next
  assume "clock_start e \<le> clock_end e"
  then show "0 \<le> clock_end e - clock_start e"
    by simp
  then show "0 \<le> py_round (clock_end e - clock_start e) 2"
    by (rule py_round_nonneg)
qed

theorem handler_fault_is_wrapped_witness:
  "handle_task_body 0 (client_post offline_env) ''Other'' ''/srv/uploads/sign.png''
     ''what color is the car'' = Inl (ConnectionError ''unreachable'') \<and>
   handle_task 0 (client_post offline_env) ''Other'' ''/srv/uploads/sign.png''
     ''what color is the car''
     = Inr (PyStr ''Task handling failed due to an error'', ''error'') \<and>
   content_type example_upload = ''image/png'' \<and>
   save_upload offline_env = Inr ''/srv/uploads/sign.png'' \<and>
   image_caption offline_env = Inr ''a sign on a pole'' \<and>
   classify_task_with_qwen offline_env ''what color is the car'' (Some ''a sign on a pole'')
     = Inr ''Other'' \<and>
   randbelow offline_env = 0 \<and>
   clock_start offline_env = 10 \<and> clock_end offline_env = 25 / 2 \<and>
   analyze_image offline_env ''what color is the car'' example_upload (Loaded [earlier_entry])
     = Inr (Result \<lparr>out_id = ''0b5c8f0e'', out_task = ''Other'',
                     out_question = ''what color is the car'', out_filename = ''sign.png'',
                     out_result = PyStr ''Task handling failed due to an error'',
                     out_latency = 5 / 2, out_model = ''error''\<rparr>,
            Loaded [earlier_entry,
                    \<lparr>log_id = ''0b5c8f0e'', log_timestamp = ''2025-01-01T12:00:00'',
                     log_task = ''Other'', log_model = ''error'', log_latency = 5 / 2,
                     log_result = PyStr ''Task handling failed due to an error''\<rparr>]) \<and>
   0 \<le> clock_end offline_env - clock_start offline_env \<and>
   0 \<le> py_round (clock_end offline_env - clock_start offline_env) 2"
proof -
  have e: "save_upload offline_env = Inr ''/srv/uploads/sign.png''"
      "image_caption offline_env = Inr ''a sign on a pole''"
      "randbelow offline_env = 0"
      "clock_start offline_env = 10" "clock_end offline_env = 25 / 2"
      "uuid4 offline_env = ''0b5c8f0e''"
      "now_isoformat offline_env = ''2025-01-01T12:00:00''"
    by (simp_all add: offline_env_def)
  have ct: "content_type example_upload = ''image/png''"
    by (simp add: example_upload_def)
  then have ok: "content_type example_upload \<in> set [''image/jpeg'', ''image/png'']"
    by simp
  have c: "classify_task_with_qwen offline_env ''what color is the car''
             (Some ''a sign on a pole'') = Inr ''Other''"
    by code_simp
  have d: "dispatch 0 ''Other'' = Inr (''other'', ''pytesseract'')"
    by (simp add: dispatch_def dict_get_def task_mapping_def)
  have b: "handle_task_body 0 (client_post offline_env) ''Other'' ''/srv/uploads/sign.png''
     ''what color is the car'' = Inl (ConnectionError ''unreachable'')"
    by (simp add: handle_task_body_def d offline_env_def)
  then have b': "handle_task_body (randbelow offline_env) (client_post offline_env) ''Other''
     ''/srv/uploads/sign.png'' ''what color is the car'' = Inl (ConnectionError ''unreachable'')"
    by (simp only: e)
  have le: "clock_start offline_env \<le> clock_end offline_env"
    by (simp add: e)
  note t = handler_fault_is_wrapped
    [of 0 "client_post offline_env" "''Other''" "''/srv/uploads/sign.png''"
        "''what color is the car''" "ConnectionError ''unreachable''"
        example_upload offline_env "''/srv/uploads/sign.png''" "''a sign on a pole''"
        "''what color is the car''" "''Other''" "ConnectionError ''unreachable''"
        "Loaded [earlier_entry]"]
  from t b have h: "handle_task 0 (client_post offline_env) ''Other'' ''/srv/uploads/sign.png''
     ''what color is the car''
     = Inr (PyStr ''Task handling failed due to an error'', ''error'')"
    by (rule_tac mp [OF conjunct1])
  have r: "py_round (5 / 2) 2 = 5 / 2"
    by (simp add: py_round_def Let_def)
  have n: "basename ''/srv/uploads/sign.png'' = ''sign.png''"
    by code_simp
  have hyp: "content_type example_upload \<in> set [''image/jpeg'', ''image/png''] \<and>
    save_upload offline_env = Inr ''/srv/uploads/sign.png'' \<and>
    image_caption offline_env = Inr ''a sign on a pole'' \<and>
    classify_task_with_qwen offline_env ''what color is the car'' (Some ''a sign on a pole'')
      = Inr ''Other'' \<and>
    handle_task_body (randbelow offline_env) (client_post offline_env) ''Other''
      ''/srv/uploads/sign.png'' ''what color is the car'' = Inl (ConnectionError ''unreachable'')"
    using ok e(1,2) c b' by (intro conjI)
  note u = mp [OF conjunct2 [OF t] hyp]
  from conjunct1 [OF u]
  have a: "analyze_image offline_env ''what color is the car'' example_upload
       (Loaded [earlier_entry])
     = Inr (Result \<lparr>out_id = ''0b5c8f0e'', out_task = ''Other'',
                     out_question = ''what color is the car'', out_filename = ''sign.png'',
                     out_result = PyStr ''Task handling failed due to an error'',
                     out_latency = 5 / 2, out_model = ''error''\<rparr>,
            Loaded [earlier_entry,
                    \<lparr>log_id = ''0b5c8f0e'', log_timestamp = ''2025-01-01T12:00:00'',
                     log_task = ''Other'', log_model = ''error'', log_latency = 5 / 2,
                     log_result = PyStr ''Task handling failed due to an error''\<rparr>])"
    by (simp add: e n r read_logs_def)
  note v = mp [OF conjunct2 [OF u] le]
  from b h ct e(1,2) c e(3,4,5) a conjunct1 [OF v] conjunct2 [OF v] show ?thesis
    by (intro conjI)
qed

lemma analyze_image_written:
  assumes "analyze_image e question upl file = Inr (Result out, file')"
  shows "\<exists>entry. file' = Loaded (read_logs file @ [entry]) \<and> log_id entry = out_id out \<and>
           log_task entry = out_task out \<and> log_model entry = out_model out \<and>
           log_result entry = out_result out"
  using assms unfolding analyze_image_def
  by (auto simp: Let_def split: if_splits sum.splits prod.splits)

lemma find_appended:
  "x \<notin> log_id ` set logs \<Longrightarrow> log_id entry = x \<Longrightarrow>
   find (\<lambda>en. log_id en = x) (logs @ [entry]) = Some entry"
  by (induction logs) auto

lemma find_absent:
  "x \<notin> log_id ` set logs \<Longrightarrow> find (\<lambda>en. log_id en = x) logs = None"
  by (induction logs) auto

lemma find_present:
  "old \<in> set logs \<Longrightarrow>
   \<exists>found. find (\<lambda>en. log_id en = log_id old) (logs @ rest) = Some found \<and>
     log_id found = log_id old"
  by (induction logs) auto

text \<open>
  C8. Let \<^const>\<open>analyze_image\<close> complete, writing an entry under the identifier \<open>X\<close> of
  its reply, where \<open>X\<close> is new (no entry read from the file has it). Then
  \<^const>\<open>get_result\<close> on \<open>X\<close> returns the entry written; on any identifier that is
  neither \<open>X\<close> nor that of an earlier entry it raises the 404 exception
  \<open>Result not found\<close>; and every earlier identifier still finds an entry. With no
  log file at all, every lookup raises the 404 exception \<open>No results found\<close>.
\<close>

theorem log_round_trip:
  "(analyze_image e question upl file = Inr (Result out, file') \<and>
    out_id out \<notin> log_id ` set (read_logs file)
      \<longrightarrow> (\<exists>entry. get_result file' (out_id out) = Inr entry \<and>
                   file' = Loaded (read_logs file @ [entry]) \<and>
                   log_id entry = out_id out \<and> log_task entry = out_task out \<and>
                   log_model entry = out_model out \<and> log_result entry = out_result out) \<and>
          (\<forall>other. other \<noteq> out_id out \<and> other \<notin> log_id ` set (read_logs file)
             \<longrightarrow> get_result file' other
                   = Inl (HTTPException 404 (''Result not found for ID: '' @ other))) \<and>
          (\<forall>old\<in>set (read_logs file).
             \<exists>found. get_result file' (log_id old) = Inr found \<and> log_id found = log_id old)) \<and>
   get_result Missing never_written = Inl (HTTPException 404 ''No results found'')"
proof (intro conjI impI allI ballI)
  assume h: "analyze_image e question upl file = Inr (Result out, file') \<and>
    out_id out \<notin> log_id ` set (read_logs file)"
  then have "analyze_image e question upl file = Inr (Result out, file')"
    by (rule conjunct1)
  from analyze_image_written [OF this]
  obtain entry where w: "file' = Loaded (read_logs file @ [entry])"
      and i: "log_id entry = out_id out"
      and f: "log_task entry = out_task out" "log_model entry = out_model out"
             "log_result entry = out_result out"
    by blast
  from h i have "find (\<lambda>en. log_id en = out_id out) (read_logs file @ [entry]) = Some entry"
    by (simp add: find_appended)
  then have "get_result file' (out_id out) = Inr entry"
    by (simp add: get_result_def w)
  with w i f
  show "\<exists>entry. get_result file' (out_id out) = Inr entry \<and>
                   file' = Loaded (read_logs file @ [entry]) \<and>
                   log_id entry = out_id out \<and> log_task entry = out_task out \<and>
                   log_model entry = out_model out \<and> log_result entry = out_result out"
    by blast
next
  fix other
  assume h: "analyze_image e question upl file = Inr (Result out, file') \<and>
    out_id out \<notin> log_id ` set (read_logs file)"
    and o: "other \<noteq> out_id out \<and> other \<notin> log_id ` set (read_logs file)"
  from h have "analyze_image e question upl file = Inr (Result out, file')"
    by (rule conjunct1)
  from analyze_image_written [OF this]
  obtain entry where w: "file' = Loaded (read_logs file @ [entry])"
      and i: "log_id entry = out_id out"
    by blast
  from o i have "other \<notin> log_id ` set (read_logs file @ [entry])"
    by auto
  then have "find (\<lambda>en. log_id en = other) (read_logs file @ [entry]) = None"
    by (rule find_absent)
  then show "get_result file' other
               = Inl (HTTPException 404 (''Result not found for ID: '' @ other))"
    by (simp add: get_result_def w)
next
  fix old
  assume h: "analyze_image e question upl file = Inr (Result out, file') \<and>
    out_id out \<notin> log_id ` set (read_logs file)"
    and o: "old \<in> set (read_logs file)"
  from h have "analyze_image e question upl file = Inr (Result out, file')"
    by (rule conjunct1)
  from analyze_image_written [OF this]
  obtain entry where w: "file' = Loaded (read_logs file @ [entry])"
    by blast
  from find_present [OF o, of "[entry]"] obtain found where
    "find (\<lambda>en. log_id en = log_id old) (read_logs file @ [entry]) = Some found"
    "log_id found = log_id old"
    by blast
  then show "\<exists>found. get_result file' (log_id old) = Inr found \<and> log_id found = log_id old"
    by (simp add: get_result_def w)
next
  show "get_result Missing never_written = Inl (HTTPException 404 ''No results found'')"
    by (simp add: get_result_def)
qed

theorem log_round_trip_witness:
  "analyze_image offline_env ''what color is the car'' example_upload (Loaded [earlier_entry])
     = Inr (Result \<lparr>out_id = ''0b5c8f0e'', out_task = ''Other'',
                     out_question = ''what color is the car'', out_filename = ''sign.png'',
                     out_result = PyStr ''Task handling failed due to an error'',
                     out_latency = 5 / 2, out_model = ''error''\<rparr>,
            Loaded [earlier_entry,
                    \<lparr>log_id = ''0b5c8f0e'', log_timestamp = ''2025-01-01T12:00:00'',
                     log_task = ''Other'', log_model = ''error'', log_latency = 5 / 2,
                     log_result = PyStr ''Task handling failed due to an error''\<rparr>]) \<and>
   map log_id (read_logs (Loaded [earlier_entry])) = [''77aa01c2''] \<and>
   get_result
     (Loaded [earlier_entry,
              \<lparr>log_id = ''0b5c8f0e'', log_timestamp = ''2025-01-01T12:00:00'',
               log_task = ''Other'', log_model = ''error'', log_latency = 5 / 2,
               log_result = PyStr ''Task handling failed due to an error''\<rparr>])
     ''0b5c8f0e''
     = Inr \<lparr>log_id = ''0b5c8f0e'', log_timestamp = ''2025-01-01T12:00:00'',
            log_task = ''Other'', log_model = ''error'', log_latency = 5 / 2,
            log_result = PyStr ''Task handling failed due to an error''\<rparr> \<and>
   get_result
     (Loaded [earlier_entry,
              \<lparr>log_id = ''0b5c8f0e'', log_timestamp = ''2025-01-01T12:00:00'',
               log_task = ''Other'', log_model = ''error'', log_latency = 5 / 2,
               log_result = PyStr ''Task handling failed due to an error''\<rparr>])
     ''ffffffff''
     = Inl (HTTPException 404 (''Result not found for ID: '' @ ''ffffffff''))"
proof -
  let ?new = "\<lparr>log_id = ''0b5c8f0e'', log_timestamp = ''2025-01-01T12:00:00'',
               log_task = ''Other'', log_model = ''error'', log_latency = 5 / 2,
               log_result = PyStr ''Task handling failed due to an error''\<rparr>"
  let ?out = "\<lparr>out_id = ''0b5c8f0e'', out_task = ''Other'',
                     out_question = ''what color is the car'', out_filename = ''sign.png'',
                     out_result = PyStr ''Task handling failed due to an error'',
                     out_latency = 5 / 2, out_model = ''error''\<rparr>"
  have e: "save_upload offline_env = Inr ''/srv/uploads/sign.png''"
      "image_caption offline_env = Inr ''a sign on a pole''"
      "randbelow offline_env = 0"
      "clock_end offline_env - clock_start offline_env = 5 / 2"
      "uuid4 offline_env = ''0b5c8f0e''"
      "now_isoformat offline_env = ''2025-01-01T12:00:00''"
    by (simp_all add: offline_env_def)
  have ok: "content_type example_upload \<in> set [''image/jpeg'', ''image/png'']"
    by (simp add: example_upload_def)
  have c: "classify_task_with_qwen offline_env ''what color is the car''
             (Some ''a sign on a pole'') = Inr ''Other''"
    by code_simp
  have d: "dispatch 0 ''Other'' = Inr (''other'', ''pytesseract'')"
    by (simp add: dispatch_def dict_get_def task_mapping_def)
  have b: "handle_task_body (randbelow offline_env) (client_post offline_env) ''Other''
     ''/srv/uploads/sign.png'' ''what color is the car'' = Inl (ConnectionError ''unreachable'')"
    by (simp add: handle_task_body_def d offline_env_def)
  have r: "py_round (5 / 2) 2 = 5 / 2"
    by (simp add: py_round_def Let_def)
  have n: "basename ''/srv/uploads/sign.png'' = ''sign.png''"
    by code_simp
  have a: "analyze_image offline_env ''what color is the car'' example_upload
             (Loaded [earlier_entry])
           = Inr (Result ?out, Loaded [earlier_entry, ?new])"
    using analyze_image_handler_fault [OF ok e(1,2) c b, of "Loaded [earlier_entry]"]
    by (simp add: e n r read_logs_def)
  have ids: "map log_id (read_logs (Loaded [earlier_entry])) = [''77aa01c2'']"
    by (simp add: read_logs_def earlier_entry_def)
  then have fresh: "out_id ?out \<notin> log_id ` set (read_logs (Loaded [earlier_entry]))"
    by (simp add: read_logs_def earlier_entry_def)
  have other: "''ffffffff'' \<noteq> out_id ?out \<and>
      ''ffffffff'' \<notin> log_id ` set (read_logs (Loaded [earlier_entry]))"
    by (simp add: read_logs_def earlier_entry_def)
  note t = log_round_trip [of offline_env "''what color is the car''" example_upload
      "Loaded [earlier_entry]" ?out "Loaded [earlier_entry, ?new]"]
  from t a fresh obtain entry where
    g: "get_result (Loaded [earlier_entry, ?new]) (out_id ?out) = Inr entry"
    and w: "Loaded [earlier_entry, ?new] = Loaded (read_logs (Loaded [earlier_entry]) @ [entry])"
    by blast
  from w have "entry = ?new"
    by (simp add: read_logs_def)
  with g have g': "get_result (Loaded [earlier_entry, ?new]) ''0b5c8f0e'' = Inr ?new"
    by simp
  from t a fresh other
  have m: "get_result (Loaded [earlier_entry, ?new]) ''ffffffff''
     = Inl (HTTPException 404 (''Result not found for ID: '' @ ''ffffffff''))"
    by blast
  from a ids g' m show ?thesis
    by (intro conjI)
qed

end
